theory Spec2Isabelle
  imports Complex_Main
begin

section \<open>Strings of the host language\<close>

text \<open>
  A JavaScript string is a sequence of UTF-16 code units. The model uses
  \<^typ>\<open>string\<close>, whose characters are the code units below 256 (ASCII and
  Latin-1). All that the program asks of the host about a string is modelled
  on that range: which code units are white space (for \<open>trim\<close> and the
  regular expression class \<open>\s\<close>), and lower-casing.
\<close>

definition isWhiteSpace :: "char \<Rightarrow> bool" where
  "isWhiteSpace c = (of_char c \<in> {9, 10, 11, 12, 13, 32, 160 :: nat})"

definition trim :: "string \<Rightarrow> string" where
  "trim s = rev (dropWhile isWhiteSpace (rev (dropWhile isWhiteSpace s)))"

definition toLowerChar :: "char \<Rightarrow> char" where
  "toLowerChar c =
     (let n = (of_char c :: nat)
      in if (65 \<le> n \<and> n \<le> 90) \<or> (192 \<le> n \<and> n \<le> 222 \<and> n \<noteq> 215)
         then char_of (n + 32) else c)"

definition toLowerCase :: "string \<Rightarrow> string" where
  "toLowerCase s = map toLowerChar s"

text \<open>
  \<open>normalize('NFC')\<close>: no code unit below 256 is a combining mark, and every
  precomposed Latin-1 letter recomposes to itself, so on the strings of this
  model the normal form is the string.
\<close>

definition normalizeNFC :: "string \<Rightarrow> string" where
  "normalizeNFC s = s"

section \<open>categoryMapping.js\<close>

text \<open>
  \<open>CATEGORY_MAPPING\<close> is read from \<open>categories.json\<close>; the table is a parameter
  of the model: its entries in the order of \<open>Object.entries\<close>, raw category
  to dashboard category.
\<close>

type_synonym category_mapping = "(string \<times> string) list"

section \<open>dataProcessor.js: ingestion\<close>

text \<open>
  A sheet row as \<open>sheet_to_json\<close> with \<open>raw: false\<close> yields it: header to
  formatted cell text; an empty cell has no key. Numbers are exact reals;
  \<open>NaN\<close> is \<open>None\<close>. The host's \<open>Date\<close> parser, \<open>parseFloat\<close> and the
  string-to-number conversion of \<open>==\<close> are parameters. A \<open>Date\<close> object is its
  time value in milliseconds, \<open>None\<close> for an invalid date.
\<close>

type_synonym sheet_row = "string \<rightharpoonup> string"

record host =
  parseDate :: "string \<Rightarrow> int option"
  parseFloat :: "string \<Rightarrow> real option"
  toNumber :: "string \<Rightarrow> real option"

record 'd row =
  cells :: sheet_row
  Date :: 'd
  Expense :: real
  remarks :: string
  category :: string
  Category :: string
  NewCategory :: string
  Onetime :: bool
  for_others :: int

text \<open>\<open>a || b\<close> on cell reads: the first operand unless it is absent or empty.\<close>

definition orElse :: "string option \<Rightarrow> string option \<Rightarrow> string option" where
  "orElse a b = (case a of None \<Rightarrow> b | Some s \<Rightarrow> if s = [] then b else Some s)"

definition newDate :: "host \<Rightarrow> string option \<Rightarrow> int option" where
  "newDate h arg = (case arg of None \<Rightarrow> None | Some s \<Rightarrow> parseDate h s)"

definition looseEqualsOne :: "host \<Rightarrow> string option \<Rightarrow> bool" where
  "looseEqualsOne h v = (case v of None \<Rightarrow> False | Some s \<Rightarrow> toNumber h s = Some 1)"

definition mappingMatch :: "category_mapping \<Rightarrow> string \<Rightarrow> (string \<times> string) option" where
  "mappingMatch CATEGORY_MAPPING lowerRaw =
     List.find (\<lambda>(key, v). toLowerCase key = lowerRaw) CATEGORY_MAPPING"

definition dateArg :: "sheet_row \<Rightarrow> string option" where
  "dateArg r = orElse (r ''Date'') (r ''date'')"

definition rawExpense :: "sheet_row \<Rightarrow> string option" where
  "rawExpense r = orElse (orElse (r ''Expense'') (r ''expense'')) None"

definition cleanRow :: "host \<Rightarrow> category_mapping \<Rightarrow> sheet_row \<Rightarrow> (int option) row" where
  "cleanRow h CATEGORY_MAPPING r =
     (let dateObj0 = newDate h (dateArg r);
          dateObj = (if dateObj0 = None then newDate h (dateArg r) else dateObj0);
          rawCategory = normalizeNFC (trim
            (case orElse (r ''category'') (Some ''Unknown'') of
               Some s \<Rightarrow> s | None \<Rightarrow> ''Unknown''));
          remarks0 = (case orElse (r ''remarks'') (Some []) of Some s \<Rightarrow> s | None \<Rightarrow> []);
          onetime = orElse (r ''onetime'') None;
          forOthers = orElse (r ''for others'') None;
          lowerRaw = toLowerCase rawCategory;
          newCategory =
            (case mappingMatch CATEGORY_MAPPING lowerRaw of
               Some m \<Rightarrow> snd m | None \<Rightarrow> rawCategory);
          amount =
            (case rawExpense r of
               None \<Rightarrow> 0
             | Some s \<Rightarrow> (case parseFloat h s of None \<Rightarrow> 0 | Some x \<Rightarrow> x))
      in \<lparr> cells = r, Date = dateObj, Expense = amount, remarks = remarks0,
           category = rawCategory, Category = rawCategory, NewCategory = newCategory,
           Onetime = looseEqualsOne h onetime,
           for_others = (if looseEqualsOne h forOthers then 1 else 0) \<rparr>)"

text \<open>
  The filter. \<open>Date\<close> is a \<open>Date\<close> object and \<open>Expense\<close> a number in every
  cleaned row, so the \<open>instanceof\<close> and \<open>typeof\<close> tests hold; what is left is
  that the date is valid and the amount positive.
\<close>

definition keepRow :: "(int option) row \<Rightarrow> bool" where
  "keepRow row =
     (let hasValidDate = (Date row \<noteq> None);
          hasValidExpense = (Expense row > 0)
      in hasValidDate \<and> hasValidExpense)"

definition processRows :: "host \<Rightarrow> category_mapping \<Rightarrow> sheet_row list \<Rightarrow> (int option) row list" where
  "processRows h CATEGORY_MAPPING jsonData =
     filter keepRow (map (cleanRow h CATEGORY_MAPPING) jsonData)"

section \<open>dataProcessor.js: metrics\<close>

text \<open>
  The numbers that \<open>calculateMetrics\<close> returns are binary64 values: a finite
  value, one of the two infinities, or \<open>NaN\<close>. A sum or quotient whose exact
  value reaches the overflow bound, \<open>2^1024 - 2^970\<close>, is an infinity. Below
  the bound the exact value is kept: rounding to the nearest double moves a
  value, it does not make it infinite. The sign of zero is not kept.
\<close>

datatype jsnumber = NaN | NegInfinity | Finite real | Infinity






text \<open>
  \<open>calculateMetrics\<close> reads \<open>Date.getTime()\<close> and \<open>Expense\<close> of each row. Its
  rows carry a valid date, a time value in milliseconds, and a finite
  amount, as ingestion leaves them in this model. \<open>x || 1\<close> replaces zero.
  The day count is computed after the early return for the empty list, so
  \<open>daysOf\<close> is only ever applied to a list with a first and a last date; it
  is computed on integers, which the time values and their difference are.
\<close>

record metrics =
  total :: jsnumber
  avgMonthly :: jsnumber
  avgDaily :: jsnumber
  days :: int





section \<open>The chat component: state\<close>

text \<open>
  The state of \<open>ChatInterface\<close> that \<open>initializeConnections\<close> and
  \<open>handleSend\<close> read or write. A value that may be \<open>undefined\<close> or \<open>null\<close>
  is an option; such a value is truthy when it is a non-empty string. A
  promise that may reject is a sum: \<open>Inl\<close> carries the error's message.
  \<open>mlxModels\<close> is an option because \<open>setMlxModels\<close> is handed whatever
  \<open>listMLXModels\<close> resolved to.
\<close>

type_synonym 'a promise = "string + 'a"

definition truthy :: "string option \<Rightarrow> bool" where
  "truthy v = (case v of None \<Rightarrow> False | Some s \<Rightarrow> s \<noteq> [])"

datatype role = User | Assistant | System

text \<open>
  A message of the conversation. \<open>msgFig\<close> and \<open>msgCode\<close> are its \<open>fig\<close> and
  \<open>code\<close> (the analysis result has fields of the same names); a parsed
  figure is kept as its JSON text.
\<close>

record chatMessage =
  role :: role
  content :: string
  isSystem :: bool
  isError :: bool
  msgFig :: "string option"
  msgCode :: "string option"
  executionTime :: "real option"

record stageEvent =
  stage :: string
  message :: string
  model :: "string option"
  tool :: "string option"
  timestamp :: real

record chatState =
  messages :: "chatMessage list"
  unreadCount :: nat
  input :: string
  isLoading :: bool
  models :: "string list"
  selectedCodeModel :: "string option"
  selectedRouterModel :: "string option"
  selectedChatModel :: "string option"
  isConnected :: bool
  ollamaConnected :: bool
  backendConnected :: bool
  connectionError :: "string option"
  workflowStatus :: "stageEvent list"
  routerProvider :: string
  specialistProvider :: string
  summarizerProvider :: string
  mlxModels :: "string list option"
  ollamaModels :: "string list"
  showChoiceUI :: bool
  temperature :: real
  topP :: real
  topK :: int

text \<open>The state the component starts in (the arguments of its \<open>useState\<close> calls).\<close>

definition initialState :: chatState where
  "initialState =
     \<lparr> messages = [], unreadCount = 0, input = [], isLoading = False, models = [],
       selectedCodeModel = Some [], selectedRouterModel = Some [], selectedChatModel = Some [],
       isConnected = False, ollamaConnected = False, backendConnected = False,
       connectionError = None, workflowStatus = [],
       routerProvider = ''ollama'', specialistProvider = ''ollama'',
       summarizerProvider = ''ollama'', mlxModels = Some [], ollamaModels = [],
       showChoiceUI = False, temperature = 0, topP = 1 / 10, topK = 10 \<rparr>"

section \<open>mlx.js and initializeConnections\<close>

text \<open>
  What a \<open>fetch\<close> of \<open>/models/mlx\<close> can give: a network error, or a response
  with its \<open>ok\<close> flag and its body. The body does not parse as JSON, or it
  parses and has its \<open>models\<close>: a list of names, or \<open>None\<close> when the field
  is missing (\<open>data.models\<close> is then \<open>undefined\<close>).

  \<open>listMLXModels\<close> catches a network error, a response that is not \<open>ok\<close>
  and a body that does not parse, and returns the empty list; otherwise it
  returns \<open>data.models\<close> as it is.
\<close>

datatype body = Unparsable | Body "string list option"

datatype fetchOutcome = NetworkError | HttpResponse bool body

definition listMLXModels :: "fetchOutcome \<Rightarrow> string list option" where
  "listMLXModels response =
     (case response of
        NetworkError \<Rightarrow> Some []
      | HttpResponse ok b \<Rightarrow>
          if \<not> ok then Some []
          else (case b of Unparsable \<Rightarrow> Some [] | Body data_models \<Rightarrow> data_models))"

definition backendCheck :: "fetchOutcome \<Rightarrow> bool" where
  "backendCheck response =
     (case response of NetworkError \<Rightarrow> False | HttpResponse ok b \<Rightarrow> ok)"

text \<open>
  The outcomes of the calls that \<open>initializeConnections\<close> awaits.
  \<open>checkOllamaConnection\<close> and \<open>listModels\<close> come from \<open>ollama.js\<close>; the two
  fetches are the probe of the backend and the one inside \<open>listMLXModels\<close>.
  \<open>initPyodide\<close> is awaited inside a \<open>try\<close> of its own, which only logs, so
  its outcome changes nothing.
\<close>

record initEnv =
  checkOllamaConnection :: "bool promise"
  mlxProbe :: fetchOutcome
  listModels :: "string list promise"
  mlxListing :: fetchOutcome
  localStorage :: "string \<rightharpoonup> string"

text \<open>
  \<open>String.prototype.includes\<close>, the element \<open>xs[0]\<close> of an array, which is
  \<open>undefined\<close> for the empty one, and the choice between a saved model and
  the default.
\<close>

definition startsWith :: "string \<Rightarrow> string \<Rightarrow> bool" where
  "startsWith s p = (take (length p) s = p)"

fun includesStr :: "string \<Rightarrow> string \<Rightarrow> bool" where
  "includesStr [] sub = (sub = [])"
| "includesStr (c # cs) sub = (startsWith (c # cs) sub \<or> includesStr cs sub)"

definition first :: "string list \<Rightarrow> string option" where
  "first xs = (case xs of [] \<Rightarrow> None | x # rest \<Rightarrow> Some x)"

definition savedOrDefault ::
  "string option \<Rightarrow> string list \<Rightarrow> string option \<Rightarrow> string option" where
  "savedOrDefault saved allAvailable fallback =
     (case saved of
        None \<Rightarrow> fallback
      | Some m \<Rightarrow> if m \<noteq> [] \<and> m \<in> set allAvailable then Some m else fallback)"

definition loadPreferences :: "(string \<rightharpoonup> string) \<Rightarrow> string list \<Rightarrow> string list \<Rightarrow> chatState \<Rightarrow> chatState" where
  "loadPreferences storage availableOllamaModels availableMlxModels s =
     (let savedRouter = storage ''selected_router_model'';
          savedSpecialist = storage ''selected_specialist_model'';
          savedChat = storage ''selected_chat_model'';
          allAvailable = availableOllamaModels @ availableMlxModels;
          defaultRouterOllama =
            orElse (orElse
              (List.find (\<lambda>m. includesStr m ''qwen'' \<or> includesStr m ''llama'') availableOllamaModels)
              (first availableOllamaModels)) (first availableMlxModels);
          preferredOllama =
            orElse (orElse
              (List.find (\<lambda>m. includesStr m ''coder'' \<or> includesStr m ''llama3'') availableOllamaModels)
              (first availableOllamaModels)) (first availableMlxModels)
      in s\<lparr> routerProvider :=
               (case orElse (storage ''router_provider'') (Some ''ollama'') of
                  Some p \<Rightarrow> p | None \<Rightarrow> ''ollama''),
             specialistProvider :=
               (case orElse (storage ''specialist_provider'') (Some ''ollama'') of
                  Some p \<Rightarrow> p | None \<Rightarrow> ''ollama''),
             summarizerProvider :=
               (case orElse (storage ''summarizer_provider'') (Some ''ollama'') of
                  Some p \<Rightarrow> p | None \<Rightarrow> ''ollama''),
             selectedRouterModel := savedOrDefault savedRouter allAvailable defaultRouterOllama,
             selectedCodeModel := savedOrDefault savedSpecialist allAvailable preferredOllama,
             selectedChatModel := savedOrDefault savedChat allAvailable preferredOllama \<rparr>)"

definition initFailed :: "chatState \<Rightarrow> chatState" where
  "initFailed s =
     s\<lparr> isConnected := False,
        connectionError := Some ''Initialization failed. Check console for details.'' \<rparr>"

text \<open>
  \<open>initializeConnections\<close>. The three setters of the model lists run in
  order; the spread \<open>[...availableOllamaModels, ...availableMlxModels]\<close> of
  the third throws a \<open>TypeError\<close> when \<open>availableMlxModels\<close> is
  \<open>undefined\<close>, after the first two have run, and the \<open>catch\<close> takes over.
\<close>

definition initializeConnections :: "initEnv \<Rightarrow> chatState \<Rightarrow> chatState" where
  "initializeConnections env s0 =
     (let s1 = s0\<lparr> isLoading := True \<rparr>;
          s' =
            (case checkOllamaConnection env of
               Inl e \<Rightarrow> initFailed s1
             | Inr ollamaOk \<Rightarrow>
                 (let backendOk = backendCheck (mlxProbe env);
                      eitherConnected = (ollamaOk \<or> backendOk);
                      s2 = s1\<lparr> ollamaConnected := ollamaOk, backendConnected := backendOk,
                                isConnected := eitherConnected \<rparr>
                  in if eitherConnected then
                       (let s3 = s2\<lparr> connectionError := None \<rparr>
                        in case (if ollamaOk then listModels env else Inr []) of
                             Inl e \<Rightarrow> initFailed s3
                           | Inr availableOllamaModels \<Rightarrow>
                               (let availableMlxModels =
                                      (if backendOk then listMLXModels (mlxListing env)
                                       else Some []);
                                    s4 = s3\<lparr> ollamaModels := availableOllamaModels,
                                              mlxModels := availableMlxModels \<rparr>
                                in case availableMlxModels of
                                     None \<Rightarrow> initFailed s4
                                   | Some mlx \<Rightarrow>
                                       (let s5 = s4\<lparr> models := availableOllamaModels @ mlx \<rparr>
                                        in if length availableOllamaModels > 0 \<or> length mlx > 0
                                           then
                                             (if \<not> truthy (localStorage env ''expense_ai_setup_done'')
                                              then s5\<lparr> showChoiceUI := True \<rparr>
                                              else loadPreferences (localStorage env)
                                                     availableOllamaModels mlx s5)
                                           else s5)))
                     else
                       s2\<lparr> connectionError := Some
  ''Could not connect to LLM services (Ollama & Backend). Make sure they are running.'' \<rparr>))
      in s'\<lparr> isLoading := False \<rparr>)"

text \<open>The titles of the two status dots.\<close>

definition ollamaTitle :: "chatState \<Rightarrow> string" where
  "ollamaTitle s = (if ollamaConnected s then ''Ollama Connected'' else ''Ollama Offline'')"

definition backendTitle :: "chatState \<Rightarrow> string" where
  "backendTitle s = (if backendConnected s then ''Backend/MLX Connected'' else ''Backend Offline'')"

section \<open>handleSend: extracting the code from the model's reply\<close>

text \<open>
  The three regular expressions of the fallback and the final \<open>replace\<close>
  chain. \<open>afterFirst p s\<close> is the text after the leftmost occurrence of \<open>p\<close>,
  \<open>beforeFirst p s\<close> the text before it.

  \<open>/```python\s*([\s\S]*?)```/\<close> matches at the leftmost opening fence that
  has a closing fence after it; a closing fence after a later opening lies
  after the leftmost opening as well, so only the leftmost opening matters.
  \<open>\s*\<close> takes all the white space, and the lazy group ends at the first
  closing fence.
\<close>

fun afterFirst :: "string \<Rightarrow> string \<Rightarrow> string option" where
  "afterFirst p [] = (if p = [] then Some [] else None)"
| "afterFirst p (c # cs) =
     (if startsWith (c # cs) p then Some (drop (length p) (c # cs)) else afterFirst p cs)"

fun beforeFirst :: "string \<Rightarrow> string \<Rightarrow> string option" where
  "beforeFirst p [] = (if p = [] then Some [] else None)"
| "beforeFirst p (c # cs) =
     (if startsWith (c # cs) p then Some []
      else (case beforeFirst p cs of None \<Rightarrow> None | Some b \<Rightarrow> Some (c # b)))"

definition fence :: string where
  "fence = ''```''"

definition pythonFence :: string where
  "pythonFence = ''```python''"

definition fencedBody :: "string \<Rightarrow> string \<Rightarrow> string option" where
  "fencedBody opening code =
     (case afterFirst opening code of
        None \<Rightarrow> None
      | Some rest \<Rightarrow> beforeFirst fence (dropWhile isWhiteSpace rest))"

text \<open>\<open>/^`([\s\S]*?)`$/\<close>: a backtick first and last, with the rest between.\<close>

definition backtickBody :: "string \<Rightarrow> string option" where
  "backtickBody code =
     (case code of
        [] \<Rightarrow> None
      | c # rest \<Rightarrow>
          if c = CHR 0x60 \<and> rest \<noteq> [] \<and> last rest = CHR 0x60 then Some (butlast rest)
          else None)"

text \<open>
  \<open>replace(/p/g, '')\<close> for a non-empty literal \<open>p\<close>: the occurrences are
  removed from the left, without overlap. The counter is the number of code
  units of the current occurrence still to skip.
\<close>

fun removeEach :: "string \<Rightarrow> nat \<Rightarrow> string \<Rightarrow> string" where
  "removeEach p k [] = []"
| "removeEach p k (c # cs) =
     (if k > 0 then removeEach p (k - 1) cs
      else if p \<noteq> [] \<and> startsWith (c # cs) p then removeEach p (length p - 1) cs
      else c # removeEach p 0 cs)"

definition extractCode :: "string \<Rightarrow> string" where
  "extractCode rawContent =
     (let code = trim rawContent;
          pythonMatch = fencedBody pythonFence code;
          genericMatch = fencedBody fence code;
          backtickMatch = backtickBody code
      in case pythonMatch of
           Some b \<Rightarrow> trim b
         | None \<Rightarrow>
             (case genericMatch of
                Some b \<Rightarrow> trim b
              | None \<Rightarrow>
                  (case backtickMatch of
                     Some b \<Rightarrow> trim b
                   | None \<Rightarrow> trim (removeEach fence 0 (removeEach pythonFence 0 code)))))"

section \<open>handleSend\<close>

text \<open>
  What \<open>runPython\<close> resolves to, and what \<open>runPythonStream\<close> resolves to: the
  same with the invocation text and the \<open>backend\<close> flag, which is falsy when
  the remote service did not serve the request.
\<close>

record pyResult =
  result :: "string option"
  fig :: "string option"

record analysisResult = pyResult +
  code :: "string option"
  backend :: bool

text \<open>
  The options object handed to \<open>runPythonStream\<close>: prompt, metadata, currency,
  model, routerModel, chatModel, routerProvider, specialistProvider,
  summarizerProvider, and the sampling options temperature, top_p, top_k.
\<close>

type_synonym sampling = "real \<times> real \<times> int"

datatype streamOptions =
  StreamOptions string string string "string option" "string option" "string option"
    string string string sampling

text \<open>
  A reply of \<open>chatWithOllama\<close>: no object at all, or an object with its
  \<open>content\<close>, which may be missing.
\<close>

datatype chatReply = NoReply | Reply "string option"

text \<open>
  The calls that leave the component, in order: the remote pipeline, the
  model behind \<open>chatWithOllama\<close>, and the in-browser interpreter.
\<close>

datatype call =
  StreamCall streamOptions
| ChatCall "string option" "chatMessage list" sampling
| PythonCall string

text \<open>
  The world around one \<open>handleSend\<close>: the readings of \<open>performance.now()\<close> in
  the order they are taken, the metadata text and the system prompt (built
  from the category constants and from \<open>PYTHON_ANALYSIS_PROMPT\<close>), the
  currency, what each awaited call resolves to, together with the stage
  events \<open>runPythonStream\<close> reports through its callback, \<open>JSON.parse\<close>, and
  whether the panel is visible at the end.
\<close>

record sendEnv =
  clock :: "nat \<Rightarrow> real"
  metadataStr :: string
  systemPrompt :: string
  currency :: string
  runPythonStream :: "streamOptions \<Rightarrow> stageEvent list \<times> analysisResult promise"
  chatWithOllama :: "string option \<Rightarrow> chatMessage list \<Rightarrow> sampling \<Rightarrow> chatReply promise"
  runPython :: "string \<Rightarrow> pyResult promise"
  JSON_parse :: "string \<Rightarrow> string promise"
  visibleAtEnd :: bool

definition plainMessage :: "role \<Rightarrow> string \<Rightarrow> chatMessage" where
  "plainMessage r c =
     \<lparr> role = r, content = c, isSystem = False, isError = False,
       msgFig = None, msgCode = None, executionTime = None \<rparr>"

definition offlineNotice :: chatMessage where
  "offlineNotice =
     (plainMessage Assistant ''Backend offline. Running in-browser (slower)...'')
       \<lparr> isSystem := True \<rparr>"

definition errorMessage :: "string \<Rightarrow> chatMessage" where
  "errorMessage msg = (plainMessage Assistant (''Error: '' @ msg)) \<lparr> isError := True \<rparr>"

text \<open>The message of the \<open>TypeError\<close> for reading \<open>content\<close> of no object.\<close>

definition typeErrorMessage :: string where
  "typeErrorMessage = ''Cannot read properties of undefined (reading 'content')''"

definition summaryPrompt :: "string \<Rightarrow> string" where
  "summaryPrompt cur =
     ''Summarize the result in one natural sentence in the same language as the user's question.''
     @ [CHR 0x0A]
     @ ''CRITICAL: YOU MUST USE THE EXACT NUMBER FROM THE RESULT. DO NOT CHANGE, ROUND, OR ADD DIGITS.''
     @ [CHR 0x0A]
     @ ''Currency: '' @ cur"

text \<open>
  The callback handed to \<open>runPythonStream\<close>: each status is appended with
  the reading of the clock at its arrival. The first reading of a run is
  \<open>startTime\<close>, so the \<open>i\<close>-th event gets reading \<open>i + 1\<close>.
\<close>

definition onStatus :: "real \<Rightarrow> stageEvent \<Rightarrow> stageEvent list \<Rightarrow> stageEvent list" where
  "onStatus now status prev = prev @ [status\<lparr> timestamp := now \<rparr>]"

fun deliver :: "(nat \<Rightarrow> real) \<Rightarrow> nat \<Rightarrow> stageEvent list \<Rightarrow> stageEvent list \<Rightarrow> stageEvent list" where
  "deliver clk i [] prev = prev"
| "deliver clk i (e # es) prev = deliver clk (Suc i) es (onStatus (clk i) e prev)"

definition finish :: "chatState \<Rightarrow> chatState" where
  "finish s = s\<lparr> isLoading := False, workflowStatus := [] \<rparr>"

definition caught :: "chatState \<Rightarrow> string \<Rightarrow> chatState" where
  "caught s msg = finish (s\<lparr> messages := messages s @ [errorMessage msg] \<rparr>)"

text \<open>
  Step 3 of \<open>handleSend\<close>: the summary, asked of the chat model only for a
  result that did not come from the backend, is not empty, is not the text
  \<open>None\<close> and is shorter than 500. The value is \<open>finalContent\<close>.
\<close>

definition summarizable :: "bool \<Rightarrow> string \<Rightarrow> bool" where
  "summarizable fromBackend r =
     (\<not> fromBackend \<and> r \<noteq> [] \<and> r \<noteq> ''None'' \<and> length r < 500)"

definition finalSummary ::
  "sendEnv \<Rightarrow> chatState \<Rightarrow> string \<Rightarrow> bool \<Rightarrow> string option
     \<Rightarrow> (string option) promise \<times> call list" where
  "finalSummary env s currentInput fromBackend res =
     (case res of
        None \<Rightarrow> (Inr None, [])
      | Some r \<Rightarrow>
          if summarizable fromBackend r then
            (let payload =
                   [plainMessage System (summaryPrompt (currency env)),
                    plainMessage User
                      (''Question: '' @ currentInput @ [CHR 0x0A] @ ''Result: '' @ r)];
                 opts = (temperature s, topP s, topK s)
             in (case chatWithOllama env (selectedChatModel s) payload opts of
                   Inl e \<Rightarrow> Inl e
                 | Inr NoReply \<Rightarrow> Inl typeErrorMessage
                 | Inr (Reply c) \<Rightarrow> Inr c,
                 [ChatCall (selectedChatModel s) payload opts]))
          else (Inr (Some r), []))"

text \<open>
  The assistant message: \<open>finalContent\<close>, or a canned text when it is falsy;
  the parsed figure; the code; the elapsed seconds (not rounded here).
\<close>

definition newMessage ::
  "sendEnv \<Rightarrow> real \<Rightarrow> real \<Rightarrow> string option \<Rightarrow> string option \<Rightarrow> string option
     \<Rightarrow> chatMessage promise" where
  "newMessage env startTime endTime finalContent fig0 code0 =
     (let text0 =
            (if truthy finalContent then (case finalContent of Some c \<Rightarrow> c | None \<Rightarrow> [])
             else if truthy fig0 then ''I've generated a visualization for you.''
             else ''Analysis complete.'');
          parsed =
            (case fig0 of
               None \<Rightarrow> Inr None
             | Some f \<Rightarrow>
                 if f = [] then Inr None
                 else (case JSON_parse env f of Inl e \<Rightarrow> Inl e | Inr j \<Rightarrow> Inr (Some j)))
      in case parsed of
           Inl e \<Rightarrow> Inl e
         | Inr figure \<Rightarrow>
             Inr \<lparr> role = Assistant, content = text0, isSystem = False, isError = False,
                   msgFig = figure, msgCode = code0,
                   executionTime = Some ((endTime - startTime) / 1000) \<rparr>)"

text \<open>
  The fallback of step 2, taken when \<open>backend\<close> is falsy: the notice, the
  request for code to the specialist model, and the run of the extracted
  code in the browser. The value is the local result with the code.
\<close>

definition specialistPayload :: "sendEnv \<Rightarrow> chatState \<Rightarrow> chatMessage list" where
  "specialistPayload env s =
     [plainMessage System (systemPrompt env)]
     @ filter (\<lambda>m. role m \<noteq> System) (messages s)
     @ [plainMessage User (input s)]"

definition replyContent :: "chatReply \<Rightarrow> string" where
  "replyContent response =
     (case response of
        NoReply \<Rightarrow> []
      | Reply None \<Rightarrow> []
      | Reply (Some c) \<Rightarrow> c)"

definition fallback ::
  "sendEnv \<Rightarrow> chatState \<Rightarrow> (pyResult \<times> string) promise \<times> call list" where
  "fallback env s =
     (let payload = specialistPayload env s;
          opts = (temperature s, topP s, topK s);
          chat = ChatCall (selectedCodeModel s) payload opts
      in case chatWithOllama env (selectedCodeModel s) payload opts of
           Inl e \<Rightarrow> (Inl e, [chat])
         | Inr response \<Rightarrow>
             (let rawContent = replyContent response;
                  code1 = extractCode rawContent
              in case runPython env code1 of
                   Inl e \<Rightarrow> (Inl e, [chat, PythonCall code1])
                 | Inr localResult \<Rightarrow> (Inr (localResult, code1), [chat, PythonCall code1])))"

text \<open>
  \<open>handleSend\<close>, from the state at the time of the call: the new state and
  the calls made. \<open>workflowDuring\<close> is the stage list while the request is
  in flight; the \<open>finally\<close> block empties it.
\<close>

definition streamRequest :: "sendEnv \<Rightarrow> chatState \<Rightarrow> streamOptions" where
  "streamRequest env s =
     StreamOptions (input s) (metadataStr env) (currency env)
       (selectedCodeModel s) (selectedRouterModel s) (selectedChatModel s)
       (routerProvider s) (specialistProvider s) (summarizerProvider s)
       (temperature s, topP s, topK s)"

definition workflowDuring :: "sendEnv \<Rightarrow> chatState \<Rightarrow> stageEvent list" where
  "workflowDuring env s =
     deliver (clock env) 1 (fst (runPythonStream env (streamRequest env s))) (workflowStatus s)"

definition conclude ::
  "sendEnv \<Rightarrow> chatState \<Rightarrow> string \<Rightarrow> nat \<Rightarrow> bool \<Rightarrow> string option \<Rightarrow> string option
     \<Rightarrow> string option \<Rightarrow> call list \<Rightarrow> chatState \<times> call list" where
  "conclude env s currentInput n fromBackend res fig0 code0 calls =
     (case finalSummary env s currentInput fromBackend res of
        (Inl e, cs) \<Rightarrow> (caught s e, calls @ cs)
      | (Inr finalContent, cs) \<Rightarrow>
          (case newMessage env (clock env 0) (clock env (Suc n)) finalContent fig0 code0 of
             Inl e \<Rightarrow> (caught s e, calls @ cs)
           | Inr m \<Rightarrow>
               (finish (s\<lparr> messages := messages s @ [m],
                            unreadCount :=
                              (if \<not> visibleAtEnd env then unreadCount s + 1
                               else unreadCount s) \<rparr>),
                calls @ cs)))"

definition sending :: "sendEnv \<Rightarrow> chatState \<Rightarrow> chatState" where
  "sending env s =
     s\<lparr> messages := messages s @ [plainMessage User (input s)], input := [],
        isLoading := True, workflowStatus := workflowDuring env s \<rparr>"

definition notified :: "chatState \<Rightarrow> chatState" where
  "notified s = s\<lparr> messages := messages s @ [offlineNotice] \<rparr>"

definition handleSend :: "sendEnv \<Rightarrow> chatState \<Rightarrow> chatState \<times> call list" where
  "handleSend env s =
     (if trim (input s) = [] \<or> \<not> truthy (selectedCodeModel s) then (s, [])
      else
        (let currentInput = input s;
             request = streamRequest env s;
             (events, analysis) = runPythonStream env request;
             s1 = sending env s;
             n = length events
         in case analysis of
              Inl e \<Rightarrow> (caught s1 e, [StreamCall request])
            | Inr a \<Rightarrow>
                if \<not> backend a then
                  (let s2 = notified s1
                   in case fallback env s of
                        (Inl e, cs) \<Rightarrow> (caught s2 e, StreamCall request # cs)
                      | (Inr (localResult, code1), cs) \<Rightarrow>
                          conclude env s2 currentInput n False
                            (result localResult) (fig localResult) (Some code1)
                            (StreamCall request # cs))
                else
                  conclude env s1 currentInput n True
                    (result a) (fig a) (code a) [StreamCall request]))"

text \<open>The code texts handed to the in-browser interpreter, among the calls made.\<close>

fun executed :: "call list \<Rightarrow> string list" where
  "executed [] = []"
| "executed (PythonCall c # cs) = c # executed cs"
| "executed (other # cs) = executed cs"

section \<open>The validation of a categorical argument\<close>

text \<open>
  Modelled from the spec: the Validation Layer's treatment of a categorical
  argument. It is part of the backend (\<open>analysis_tools.py\<close>), which is not
  among the sources. Section 4.3 of the specification gives the algorithm:
  case-fold and trim the extracted value; if it exactly matches a known
  category, accept that category; otherwise compute the similarity against
  the known categories and accept the best match above a fixed confidence
  threshold; below the threshold, fail with the nearest candidates listed.
  The known categories are case-canonical (section 3), so the match is up to
  case. Section 9 leaves the similarity measure, the threshold and the
  tie-break open: the first two are parameters here, with the number of
  candidates to list, and among equally good matches the earliest wins.
\<close>

datatype validation = Accepted string | ValidationFailure "string list"

record matcher =
  similarity :: "string \<Rightarrow> string \<Rightarrow> real"
  threshold :: real
  listed :: nat

definition exactMatch :: "string list \<Rightarrow> string \<Rightarrow> string option" where
  "exactMatch knownCategories v = List.find (\<lambda>k. toLowerCase k = v) knownCategories"

fun bestMatch :: "(string \<Rightarrow> real) \<Rightarrow> string list \<Rightarrow> string option" where
  "bestMatch score [] = None"
| "bestMatch score (k # ks) =
     (case bestMatch score ks of
        None \<Rightarrow> Some k
      | Some b \<Rightarrow> if score k < score b then Some b else Some k)"

definition nearest :: "(string \<Rightarrow> real) \<Rightarrow> nat \<Rightarrow> string list \<Rightarrow> string list" where
  "nearest score n knownCategories = take n (sort_key (\<lambda>k. - score k) knownCategories)"

definition validateCategory :: "matcher \<Rightarrow> string list \<Rightarrow> string \<Rightarrow> validation" where
  "validateCategory m knownCategories raw =
     (let v = toLowerCase (trim raw)
      in case exactMatch knownCategories v of
           Some k \<Rightarrow> Accepted k
         | None \<Rightarrow>
             (case bestMatch (similarity m v) knownCategories of
                None \<Rightarrow> ValidationFailure []
              | Some b \<Rightarrow>
                  if threshold m < similarity m v b then Accepted b
                  else ValidationFailure (nearest (similarity m v) (listed m) knownCategories)))"

section \<open>The workflow indicator\<close>

text \<open>
  \<open>WORKFLOW_STAGES\<close> with key and label, \<open>findIndex\<close> (\<open>-1\<close> when nothing
  matches), and the index that \<open>WorkflowIndicator\<close> takes as current: that of
  the stage of the latest event.
\<close>

definition WORKFLOW_STAGES :: "(string \<times> string) list" where
  "WORKFLOW_STAGES =
     [(''router'', ''Router''), (''specialist'', ''Specialist''),
      (''executing'', ''Executing''), (''summarizing'', ''Summarizing'')]"

fun findIndex :: "('a \<Rightarrow> bool) \<Rightarrow> 'a list \<Rightarrow> int" where
  "findIndex P [] = - 1"
| "findIndex P (x # xs) =
     (if P x then 0 else (let i = findIndex P xs in if i < 0 then - 1 else i + 1))"

definition stageIndex :: "string \<Rightarrow> int" where
  "stageIndex k = findIndex (\<lambda>s. fst s = k) WORKFLOW_STAGES"

definition currentIndex :: "stageEvent list \<Rightarrow> int" where
  "currentIndex stages = (case stages of [] \<Rightarrow> - 1 | e # es \<Rightarrow> stageIndex (stage (last stages)))"

section \<open>The orchestrator's stage events\<close>

text \<open>
  Modelled from the spec: the Pipeline Orchestrator that emits the stage
  events. It runs behind \<open>runPythonStream\<close>, in \<open>pythonRunner.js\<close> and the
  backend, which are not among the sources. Section 4.6 of the specification
  gives its states, \<open>idle\<close>, \<open>routing\<close>, \<open>specializing\<close>, \<open>executing\<close>,
  \<open>summarizing\<close>, \<open>done\<close> and the terminal \<open>failed\<close>, reachable from any
  state; its transitions are strictly forward, and each transition into a
  stage emits one event of that stage before the stage begins. The
  summarizer is optional (section 4.5): from \<open>executing\<close> the run may go to
  \<open>done\<close> directly. A transition is the key of the event it emits, if any,
  with the state it leads to.
\<close>

datatype pipelineState =
  Idle | Routing | Specializing | Executing | Summarizing | Done | Failed

fun transitions :: "pipelineState \<Rightarrow> (string option \<times> pipelineState) list" where
  "transitions Idle = [(Some ''router'', Routing), (None, Failed)]"
| "transitions Routing = [(Some ''specialist'', Specializing), (None, Failed)]"
| "transitions Specializing = [(Some ''executing'', Executing), (None, Failed)]"
| "transitions Executing = [(Some ''summarizing'', Summarizing), (None, Done), (None, Failed)]"
| "transitions Summarizing = [(None, Done), (None, Failed)]"
| "transitions Done = []"
| "transitions Failed = []"

fun follows :: "pipelineState \<Rightarrow> (string option \<times> pipelineState) list \<Rightarrow> bool" where
  "follows s [] = True"
| "follows s (t # p) = (t \<in> set (transitions s) \<and> follows (snd t) p)"

fun emitted :: "(string option \<times> pipelineState) list \<Rightarrow> string list" where
  "emitted [] = []"
| "emitted ((Some k, s) # p) = k # emitted p"
| "emitted ((None, s) # p) = emitted p"

text \<open>The place of a state in the forward order.\<close>

fun rank :: "pipelineState \<Rightarrow> int" where
  "rank Idle = 0"
| "rank Routing = 1"
| "rank Specializing = 2"
| "rank Executing = 3"
| "rank Summarizing = 4"
| "rank Done = 4"
| "rank Failed = 4"

section \<open>Example data\<close>

text \<open>
  A host that answers on the cell texts of the examples, a small mapping
  table (the dashboard's Food and Housing groups), and a few sheet rows.
\<close>

definition sampleHost :: host where
  "sampleHost =
     \<lparr> parseDate = (\<lambda>s. if s = ''2024-01-15'' then Some 1705276800000 else None),
       parseFloat = (\<lambda>s. if s = ''1200'' then Some 1200
                          else if s = ''0'' then Some 0
                          else if s = ''-300'' then Some (- 300) else None),
       toNumber = (\<lambda>s. if s = ''1'' then Some 1 else None) \<rparr>"

definition sampleMapping :: category_mapping where
  "sampleMapping = [(''groceries'', ''Food''), (''dining'', ''Food''), (''housing'', ''Housing'')]"

definition goodRow :: sheet_row where
  "goodRow = [''Date'' \<mapsto> ''2024-01-15'', ''Expense'' \<mapsto> ''1200'', ''category'' \<mapsto> '' Dining '']"

definition undatedRow :: sheet_row where
  "undatedRow = [''Expense'' \<mapsto> ''1200'', ''category'' \<mapsto> ''dining'']"

definition refundRow :: sheet_row where
  "refundRow = [''Date'' \<mapsto> ''2024-01-15'', ''Expense'' \<mapsto> ''-300'', ''category'' \<mapsto> ''dining'']"

definition sampleSheet :: "sheet_row list" where
  "sampleSheet = [goodRow, undatedRow, refundRow]"




text \<open>
  Initialisation with Ollama up and the backend down, and with Ollama down
  and the backend up but answering \<open>/models/mlx\<close> with the JSON body \<open>{}\<close>.
\<close>

definition onlyOllama :: initEnv where
  "onlyOllama =
     \<lparr> checkOllamaConnection = Inr True, mlxProbe = NetworkError,
       listModels = Inr [''qwen3:1.7b''], mlxListing = NetworkError,
       localStorage = Map.empty \<rparr>"

definition onlyBackendNoModels :: initEnv where
  "onlyBackendNoModels =
     \<lparr> checkOllamaConnection = Inr False, mlxProbe = HttpResponse True (Body None),
       listModels = Inr [], mlxListing = HttpResponse True (Body None),
       localStorage = Map.empty \<rparr>"

text \<open>
  Known categories, and a matcher that scores containment only: 1 when one
  of the two texts contains the other up to case, 0 otherwise.
\<close>

definition knownSample :: "string list" where
  "knownSample = [''Food'', ''Housing'', ''Transport'']"

definition containment :: "string \<Rightarrow> string \<Rightarrow> real" where
  "containment v k =
     (if includesStr (toLowerCase k) v \<or> includesStr v (toLowerCase k) then 1 else 0)"

definition containmentMatcher :: matcher where
  "containmentMatcher = \<lparr> similarity = containment, threshold = 1 / 2, listed = 3 \<rparr>"

text \<open>
  A question asked with the panel open and models chosen; a remote pipeline
  that does not answer, so that \<open>backend\<close> comes back falsy; a specialist
  model that replies with a given text; an interpreter that gives a given
  result.
\<close>

definition asking :: chatState where
  "asking =
     initialState \<lparr> input := ''Total for dining in 2025?'',
       selectedCodeModel := Some ''qwen2.5-coder'', selectedRouterModel := Some ''qwen3'',
       selectedChatModel := Some ''llama3'', isConnected := True, ollamaConnected := True \<rparr>"

definition offlineAnalysis :: analysisResult where
  "offlineAnalysis =
     \<lparr> result = None, fig = None,
       code = Some ''calculate_total(year=2025, month=1)'', backend = False \<rparr>"

definition offlineEnv :: "string \<Rightarrow> pyResult \<Rightarrow> sendEnv" where
  "offlineEnv reply localResult =
     \<lparr> clock = (\<lambda>n. real n * 250), metadataStr = ''- dining'',
       systemPrompt = ''Write Python for the question.'', currency = ''JPY'',
       runPythonStream = (\<lambda>opts. ([], Inr offlineAnalysis)),
       chatWithOllama = (\<lambda>m payload opts.
          if m = Some ''qwen2.5-coder'' then Inr (Reply (Some reply))
          else Inr (Reply (Some ''You spent 1200 yen on dining.''))),
       runPython = (\<lambda>c. Inr localResult),
       JSON_parse = (\<lambda>f. Inr f),
       visibleAtEnd = True \<rparr>"

definition scalarResult :: pyResult where
  "scalarResult = \<lparr> result = Some ''1200'', fig = None \<rparr>"

definition noResult :: pyResult where
  "noResult = \<lparr> result = None, fig = None \<rparr>"

definition chartOnly :: pyResult where
  "chartOnly = \<lparr> result = None, fig = Some ''{}'' \<rparr>"

definition longTable :: pyResult where
  "longTable = \<lparr> result = Some (replicate 500 (CHR ''x'')), fig = Some ''{}'' \<rparr>"

text \<open>The answers of two of the runs.\<close>

definition answer1200 :: "string \<Rightarrow> chatMessage" where
  "answer1200 c =
     \<lparr> role = Assistant, content = ''You spent 1200 yen on dining.'', isSystem = False,
       isError = False, msgFig = None, msgCode = Some c, executionTime = Some (1 / 4) \<rparr>"

definition chartAnswer :: chatMessage where
  "chartAnswer =
     \<lparr> role = Assistant, content = ''I've generated a visualization for you.'',
       isSystem = False, isError = False, msgFig = Some ''{}'', msgCode = Some ''plot()'',
       executionTime = Some (1 / 4) \<rparr>"

text \<open>
  A run of the pipeline that skips the summarizer, with its three events as
  they reach the callback, and a world in which \<open>runPythonStream\<close> reports
  them.
\<close>

definition chartRun :: "(string option \<times> pipelineState) list" where
  "chartRun =
     [(Some ''router'', Routing), (Some ''specialist'', Specializing),
      (Some ''executing'', Executing), (None, Done)]"

definition chartEvents :: "stageEvent list" where
  "chartEvents =
     [\<lparr> stage = ''router'', message = ''Choosing a tool'', model = Some ''qwen3'',
        tool = None, timestamp = 0 \<rparr>,
      \<lparr> stage = ''specialist'', message = ''Extracting arguments'',
        model = Some ''qwen2.5-coder'', tool = Some ''plot_time_series'', timestamp = 0 \<rparr>,
      \<lparr> stage = ''executing'', message = ''Running'', model = None,
        tool = Some ''plot_time_series'', timestamp = 0 \<rparr>]"

definition onlineEnv :: sendEnv where
  "onlineEnv =
     \<lparr> clock = (\<lambda>n. real n * 250), metadataStr = ''- dining'',
       systemPrompt = ''Write Python for the question.'', currency = ''JPY'',
       runPythonStream = (\<lambda>opts. (chartEvents,
          Inr \<lparr> result = None, fig = Some ''{}'',
                code = Some ''plot_time_series(months=6)'', backend = True \<rparr>)),
       chatWithOllama = (\<lambda>m payload opts. Inl ''unreachable''),
       runPython = (\<lambda>c. Inl ''unused''),
       JSON_parse = (\<lambda>f. Inr f),
       visibleAtEnd = True \<rparr>"

section \<open>Validation of a categorical argument\<close>

lemma exactMatch_known:
  assumes "k \<in> set knownCategories"
    and "distinct (map toLowerCase knownCategories)"
  shows "exactMatch knownCategories (toLowerCase k) = Some k"
  using assms
proof (induction knownCategories)
  case Nil
  then show ?case by simp
next
  case (Cons x xs)
  show ?case
  proof (cases "x = k")
    case True
    then show ?thesis by (simp add: exactMatch_def)
  next
    case False
    with Cons.prems have k: "k \<in> set xs" and d: "distinct (map toLowerCase xs)"
      and n: "toLowerCase x \<notin> toLowerCase ` set xs"
      by simp_all
    from k n have "toLowerCase x \<noteq> toLowerCase k" by blast
    with Cons.IH [OF k d] show ?thesis
      by (simp add: exactMatch_def)
  qed
qed

lemma bestMatch_member:
  "bestMatch score ks = Some b \<Longrightarrow> b \<in> set ks"
  by (induction ks arbitrary: b) (auto split: option.splits if_splits)

lemma bestMatch_empty: "bestMatch score ks = None \<longleftrightarrow> ks = []"
  by (induction ks) (auto split: option.splits)

lemma nearest_known:
  "set (nearest score n ks) \<subseteq> set ks"
  "length (nearest score n ks) \<le> n"
  "sorted (map (\<lambda>k. - score k) (nearest score n ks))"
proof -
  show "set (nearest score n ks) \<subseteq> set ks"
    unfolding nearest_def using set_take_subset [of n "sort_key (\<lambda>k. - score k) ks"] by simp
  show "length (nearest score n ks) \<le> n"
    by (simp add: nearest_def)
  have "sorted (take n (map (\<lambda>k. - score k) (sort_key (\<lambda>k. - score k) ks)))"
    by (rule sorted_wrt_take) simp
  then show "sorted (map (\<lambda>k. - score k) (nearest score n ks))"
    by (simp add: nearest_def take_map)
qed

text \<open>
  Claim C4. A value whose trimmed, case-folded form equals that of a known
  category is validated to that known category, as the vocabulary spells
  it; so is the known category itself, if it has no white space around it:
  validating the result again changes nothing. The known categories differ
  up to case, as a case-canonical vocabulary does.
\<close>

theorem validation_accepts_exact_match_unchanged:
  assumes "k \<in> set knownCategories"
    and "toLowerCase (trim raw) = toLowerCase k"
    and "distinct (map toLowerCase knownCategories)"
  shows "validateCategory m knownCategories raw = Accepted k \<and>
         (trim k = k \<longrightarrow> validateCategory m knownCategories k = Accepted k)"
proof -
  have e: "exactMatch knownCategories (toLowerCase k) = Some k"
    by (rule exactMatch_known [OF assms(1,3)])
  have a: "validateCategory m knownCategories raw = Accepted k"
    by (simp add: validateCategory_def Let_def assms(2) e)
  have b: "validateCategory m knownCategories k = Accepted k" if "trim k = k"
    by (simp add: validateCategory_def Let_def that e)
  from a b show ?thesis by blast
qed

theorem validation_accepts_exact_match_unchanged_witness:
  "''Food'' \<in> set knownSample \<and>
   toLowerCase (trim ''food '') = toLowerCase ''Food'' \<and>
   distinct (map toLowerCase knownSample) \<and>
   validateCategory containmentMatcher knownSample ''food '' = Accepted ''Food'' \<and>
   validateCategory containmentMatcher knownSample ''Food'' = Accepted ''Food''"
proof -
  have a: "''Food'' \<in> set knownSample"
    by (simp add: knownSample_def)
  have b: "toLowerCase (trim ''food '') = toLowerCase ''Food''"
    by code_simp
  have c: "distinct (map toLowerCase knownSample)"
    by code_simp
  have d: "trim ''Food'' = ''Food''"
    by code_simp
  from validation_accepts_exact_match_unchanged [OF a b c, of containmentMatcher] a b c d
  show ?thesis by blast
qed

text \<open>
  Claim C5. A value that matches no known category up to case, and whose
  similarity to every known category is below the threshold, is not
  validated to any category: validation fails, and it reports candidates,
  which are known categories, at most as many as are to be listed, the most
  similar first.
\<close>

theorem validation_fails_below_threshold:
  assumes "\<forall>k \<in> set knownCategories. toLowerCase k \<noteq> toLowerCase (trim raw)"
    and "\<forall>k \<in> set knownCategories. similarity m (toLowerCase (trim raw)) k < threshold m"
  shows "validateCategory m knownCategories raw =
           ValidationFailure
             (nearest (similarity m (toLowerCase (trim raw))) (listed m) knownCategories) \<and>
         (\<forall>c. validateCategory m knownCategories raw \<noteq> Accepted c) \<and>
         set (nearest (similarity m (toLowerCase (trim raw))) (listed m) knownCategories)
           \<subseteq> set knownCategories \<and>
         sorted (map (\<lambda>k. - similarity m (toLowerCase (trim raw)) k)
           (nearest (similarity m (toLowerCase (trim raw))) (listed m) knownCategories))"
proof -
  let ?v = "toLowerCase (trim raw)"
  have x: "exactMatch knownCategories ?v = None"
    using assms(1) by (auto simp: exactMatch_def find_None_iff)
  have f: "validateCategory m knownCategories raw =
           ValidationFailure (nearest (similarity m ?v) (listed m) knownCategories)"
  proof (cases "bestMatch (similarity m ?v) knownCategories")
    case None
    then have "knownCategories = []" by (simp add: bestMatch_empty)
    with None x show ?thesis
      by (simp add: validateCategory_def Let_def nearest_def)
  next
    case (Some b)
    then have "b \<in> set knownCategories" by (rule bestMatch_member)
    with assms(2) have "\<not> threshold m < similarity m ?v b" by fastforce
    with Some x show ?thesis
      by (simp add: validateCategory_def Let_def)
  qed
  from f nearest_known(1,3) [of "similarity m ?v" "listed m" knownCategories]
  show ?thesis by simp
qed

theorem validation_fails_below_threshold_witness:
  "list_all (\<lambda>k. toLowerCase k \<noteq> toLowerCase (trim ''zzz'')) knownSample \<and>
   list_all (\<lambda>k. similarity containmentMatcher (toLowerCase (trim ''zzz'')) k
                    < threshold containmentMatcher) knownSample \<and>
   validateCategory containmentMatcher knownSample ''zzz''
     = ValidationFailure [''Food'', ''Housing'', ''Transport'']"
proof -
  have v: "toLowerCase (trim ''zzz'') = ''zzz''" by code_simp
  have a: "list_all (\<lambda>k. toLowerCase k \<noteq> toLowerCase (trim ''zzz'')) knownSample"
    unfolding v by code_simp
  have s: "containment ''zzz'' ''Food'' = 0" "containment ''zzz'' ''Housing'' = 0"
    "containment ''zzz'' ''Transport'' = 0"
    by (simp_all add: containment_def toLowerCase_def toLowerChar_def startsWith_def)
  have b: "list_all (\<lambda>k. similarity containmentMatcher (toLowerCase (trim ''zzz'')) k
                    < threshold containmentMatcher) knownSample"
    unfolding v by (simp add: containmentMatcher_def knownSample_def s)
  have n: "nearest (similarity containmentMatcher ''zzz'') (listed containmentMatcher) knownSample
             = [''Food'', ''Housing'', ''Transport'']"
    by (simp add: nearest_def containmentMatcher_def knownSample_def s)
  from a have a': "\<forall>k \<in> set knownSample. toLowerCase k \<noteq> toLowerCase (trim ''zzz'')"
    by (simp add: list_all_iff)
  from b have b': "\<forall>k \<in> set knownSample.
      similarity containmentMatcher (toLowerCase (trim ''zzz'')) k < threshold containmentMatcher"
    by (simp add: list_all_iff)
  from validation_fails_below_threshold [OF a' b'] n v
  have "validateCategory containmentMatcher knownSample ''zzz''
     = ValidationFailure [''Food'', ''Housing'', ''Transport'']"
    by simp
  with a b show ?thesis by blast
qed

section \<open>Ingestion keeps exactly the rows with a valid date and a positive amount\<close>

lemma keepRow_cleanRow:
  "keepRow (cleanRow h T r) \<longleftrightarrow>
     (\<exists>t. newDate h (dateArg r) = Some t) \<and>
     (\<exists>s x. rawExpense r = Some s \<and> parseFloat h s = Some x \<and> 0 < x)"
  by (auto simp: keepRow_def cleanRow_def Let_def split: option.splits)

text \<open>
  Claim C9. Every row that ingestion produces has a valid date and an amount
  strictly above zero. A sheet row whose date is missing or does not parse,
  whose amount is missing or is not a number, or whose amount is zero or
  negative, fails the filter and is not among the produced rows.
\<close>

theorem processRows_keeps_only_valid_rows:
  "(\<forall>row \<in> set (processRows h T jsonData). (\<exists>t. Date row = Some t) \<and> 0 < Expense row) \<and>
   (\<forall>r. (newDate h (dateArg r) = None \<or> rawExpense r = None \<or>
         (\<exists>s. rawExpense r = Some s \<and>
              (parseFloat h s = None \<or> (\<exists>x. parseFloat h s = Some x \<and> x \<le> 0))))
        \<longrightarrow> \<not> keepRow (cleanRow h T r) \<and> cleanRow h T r \<notin> set (processRows h T jsonData))"
proof -
  have a: "\<forall>row \<in> set (processRows h T jsonData). (\<exists>t. Date row = Some t) \<and> 0 < Expense row"
    by (auto simp: processRows_def keepRow_def Let_def)
  have b: "\<not> keepRow (cleanRow h T r) \<and> cleanRow h T r \<notin> set (processRows h T jsonData)"
    if "newDate h (dateArg r) = None \<or> rawExpense r = None \<or>
         (\<exists>s. rawExpense r = Some s \<and>
              (parseFloat h s = None \<or> (\<exists>x. parseFloat h s = Some x \<and> x \<le> 0)))" for r
  proof -
    from that have "\<not> keepRow (cleanRow h T r)"
      unfolding keepRow_cleanRow by auto
    then show ?thesis by (simp add: processRows_def)
  qed
  from a b show ?thesis by blast
qed

theorem processRows_keeps_only_valid_rows_witness:
  "map Expense (processRows sampleHost sampleMapping sampleSheet) = [1200] \<and>
   map Date (processRows sampleHost sampleMapping sampleSheet) = [Some 1705276800000] \<and>
   newDate sampleHost (dateArg undatedRow) = None \<and>
   cleanRow sampleHost sampleMapping undatedRow
     \<notin> set (processRows sampleHost sampleMapping sampleSheet) \<and>
   rawExpense refundRow = Some ''-300'' \<and>
   cleanRow sampleHost sampleMapping refundRow
     \<notin> set (processRows sampleHost sampleMapping sampleSheet)"
proof -
  note t = processRows_keeps_only_valid_rows [of sampleHost sampleMapping sampleSheet]
  have e: "map Expense (processRows sampleHost sampleMapping sampleSheet) = [1200]"
    by (simp add: processRows_def cleanRow_def keepRow_def sampleHost_def sampleSheet_def
        goodRow_def undatedRow_def refundRow_def newDate_def dateArg_def rawExpense_def
        orElse_def Let_def)
  have d: "map Date (processRows sampleHost sampleMapping sampleSheet) = [Some 1705276800000]"
    by (simp add: processRows_def cleanRow_def keepRow_def sampleHost_def sampleSheet_def
        goodRow_def undatedRow_def refundRow_def newDate_def dateArg_def rawExpense_def
        orElse_def Let_def)
  have u: "newDate sampleHost (dateArg undatedRow) = None"
    by (simp add: newDate_def dateArg_def undatedRow_def orElse_def)
  have r: "rawExpense refundRow = Some ''-300''"
    by (simp add: rawExpense_def refundRow_def orElse_def)
  have p: "parseFloat sampleHost ''-300'' = Some (- 300)"
    by (simp add: sampleHost_def)
  from t u have u': "cleanRow sampleHost sampleMapping undatedRow
      \<notin> set (processRows sampleHost sampleMapping sampleSheet)"
    by blast
  from r p have "\<exists>s. rawExpense refundRow = Some s \<and>
      (parseFloat sampleHost s = None \<or> (\<exists>x. parseFloat sampleHost s = Some x \<and> x \<le> 0))"
    by simp
  with t have r': "cleanRow sampleHost sampleMapping refundRow
      \<notin> set (processRows sampleHost sampleMapping sampleSheet)"
    by blast
  from e d u u' r r' show ?thesis by blast
qed

section \<open>The metrics never divide by zero\<close>













section \<open>Initialisation with one backend down\<close>

lemma loadPreferences_connection:
  "isConnected (loadPreferences st a b s) = isConnected s"
  "connectionError (loadPreferences st a b s) = connectionError s"
  "ollamaConnected (loadPreferences st a b s) = ollamaConnected s"
  "backendConnected (loadPreferences st a b s) = backendConnected s"
  "ollamaModels (loadPreferences st a b s) = ollamaModels s"
  "mlxModels (loadPreferences st a b s) = mlxModels s"
  by (simp_all add: loadPreferences_def Let_def)

text \<open>
  What initialisation does when nothing throws: \<open>checkOllamaConnection\<close>
  resolves to \<open>ollamaOk\<close>, \<open>listModels\<close>, if asked, resolves to a list, and the
  listing of the backend, if asked, has its \<open>models\<close>. The connected flag is
  then on exactly when one of the two is up, and a backend that is down has
  the empty list and the offline title.
\<close>

lemma initializeConnections_resolved:
  assumes "checkOllamaConnection env = Inr ollamaOk"
    and "ollamaOk \<longrightarrow> listModels env = Inr ms"
    and "backendOk = backendCheck (mlxProbe env)"
    and "backendOk \<longrightarrow> listMLXModels (mlxListing env) = Some mlx"
    and "s' = initializeConnections env s"
  shows "(ollamaOk \<noteq> backendOk \<longrightarrow>
            isConnected s' \<and> connectionError s' = None \<and>
            (\<not> ollamaOk \<longrightarrow>
               ollamaModels s' = [] \<and> \<not> ollamaConnected s' \<and>
               ollamaTitle s' = ''Ollama Offline'') \<and>
            (\<not> backendOk \<longrightarrow>
               mlxModels s' = Some [] \<and> \<not> backendConnected s' \<and>
               backendTitle s' = ''Backend Offline'')) \<and>
         (\<not> isConnected s' \<longleftrightarrow> \<not> ollamaOk \<and> \<not> backendOk) \<and>
         \<not> isLoading s'"
proof -
  have b: "backendCheck (mlxProbe env) = backendOk"
    using assms(3) by simp
  show ?thesis
  proof (cases ollamaOk)
    case True
    with assms(2) have l: "listModels env = Inr ms" by simp
    show ?thesis
    proof (cases backendOk)
      case yes: True
      with assms(4) have x: "listMLXModels (mlxListing env) = Some mlx" by simp
      show ?thesis
        unfolding assms(5) using assms(1) b True yes l x
        by (simp add: initializeConnections_def Let_def loadPreferences_connection
            ollamaTitle_def backendTitle_def)
    next
      case no: False
      show ?thesis
        unfolding assms(5) using assms(1) b True no l
        by (simp add: initializeConnections_def Let_def loadPreferences_connection
            ollamaTitle_def backendTitle_def)
    qed
  next
    case False
    show ?thesis
    proof (cases backendOk)
      case yes: True
      with assms(4) have x: "listMLXModels (mlxListing env) = Some mlx" by simp
      show ?thesis
        unfolding assms(5) using assms(1) b False yes x
        by (simp add: initializeConnections_def Let_def loadPreferences_connection
            ollamaTitle_def backendTitle_def)
    next
      case no: False
      show ?thesis
        unfolding assms(5) using assms(1) b False no
        by (simp add: initializeConnections_def Let_def loadPreferences_connection
            ollamaTitle_def backendTitle_def)
    qed
  qed
qed

lemma listMLXModels_total_but_for_models:
  "listMLXModels NetworkError = Some []"
  "listMLXModels (HttpResponse False b) = Some []"
  "listMLXModels (HttpResponse True Unparsable) = Some []"
  "listMLXModels (HttpResponse True (Body data_models)) = data_models"
  by (simp_all add: listMLXModels_def)

text \<open>
  Claim C7, at a start with Ollama down and the backend up, where the
  backend answers \<open>/models/mlx\<close> with a JSON body that has no \<open>models\<close>:
  \<open>listMLXModels\<close> resolves to \<open>undefined\<close>, the spread throws, and the
  \<open>catch\<close> turns the connected flag off and sets the error text, although
  the backend is up and is shown as connected.
\<close>

theorem initializeConnections_fails_without_models_field:
  "checkOllamaConnection onlyBackendNoModels = Inr False \<and>
   backendCheck (mlxProbe onlyBackendNoModels) = True \<and>
   listMLXModels (mlxListing onlyBackendNoModels) = None \<and>
   isConnected (initializeConnections onlyBackendNoModels initialState) = False \<and>
   backendConnected (initializeConnections onlyBackendNoModels initialState) = True \<and>
   connectionError (initializeConnections onlyBackendNoModels initialState)
     = Some ''Initialization failed. Check console for details.'' \<and>
   mlxModels (initializeConnections onlyBackendNoModels initialState) = None"
  by (simp add: initializeConnections_def Let_def onlyBackendNoModels_def backendCheck_def
      listMLXModels_def initFailed_def initialState_def)

section \<open>handleSend: the calls it makes\<close>

lemma finalSummary_reads:
  "selectedChatModel s' = selectedChatModel s \<Longrightarrow> temperature s' = temperature s \<Longrightarrow>
   topP s' = topP s \<Longrightarrow> topK s' = topK s \<Longrightarrow>
   finalSummary env s' q b res = finalSummary env s q b res"
  by (cases res) (simp_all add: finalSummary_def)

lemma sending_reads:
  "selectedChatModel (sending env s) = selectedChatModel s"
  "temperature (sending env s) = temperature s"
  "topP (sending env s) = topP s"
  "topK (sending env s) = topK s"
  "messages (sending env s) = messages s @ [plainMessage User (input s)]"
  "unreadCount (sending env s) = unreadCount s"
  by (simp_all add: sending_def)

lemma notified_reads:
  "selectedChatModel (notified s) = selectedChatModel s"
  "temperature (notified s) = temperature s"
  "topP (notified s) = topP s"
  "topK (notified s) = topK s"
  "messages (notified s) = messages s @ [offlineNotice]"
  "unreadCount (notified s) = unreadCount s"
  by (simp_all add: notified_def)

lemma finalSummary_sending:
  "finalSummary env (sending env' s) q b res = finalSummary env s q b res"
  by (rule finalSummary_reads) (simp_all add: sending_reads)

lemma finalSummary_notified:
  "finalSummary env (notified s) q b res = finalSummary env s q b res"
  by (rule finalSummary_reads) (simp_all add: notified_reads)

lemma executed_append: "executed (xs @ ys) = executed xs @ executed ys"
  by (induction xs rule: executed.induct) simp_all

lemma executed_finalSummary: "executed (snd (finalSummary env s q b res)) = []"
  by (cases res) (simp_all add: finalSummary_def Let_def)

lemma snd_conclude:
  "snd (conclude env s q n b res f c calls) = calls @ snd (finalSummary env s q b res)"
  by (cases "finalSummary env s q b res")
     (auto simp: conclude_def split: sum.splits)

lemma handleSend_offline:
  assumes "trim (input s) \<noteq> []" and "truthy (selectedCodeModel s)"
    and "runPythonStream env (streamRequest env s) = (events, Inr a)" and "\<not> backend a"
  shows "handleSend env s =
           (case fallback env s of
              (Inl e, cs) \<Rightarrow>
                (caught (notified (sending env s)) e, StreamCall (streamRequest env s) # cs)
            | (Inr (localResult, code1), cs) \<Rightarrow>
                conclude env (notified (sending env s)) (input s) (length events) False
                  (result localResult) (fig localResult) (Some code1)
                  (StreamCall (streamRequest env s) # cs))"
  using assms by (simp add: handleSend_def Let_def)

lemma handleSend_online:
  assumes "trim (input s) \<noteq> []" and "truthy (selectedCodeModel s)"
    and "runPythonStream env (streamRequest env s) = (events, Inr a)" and "backend a"
  shows "handleSend env s =
           conclude env (sending env s) (input s) (length events) True
             (result a) (fig a) (code a) [StreamCall (streamRequest env s)]"
  using assms by (simp add: handleSend_def Let_def)

lemma fallback_replied:
  assumes "chatWithOllama env (selectedCodeModel s) (specialistPayload env s)
             (temperature s, topP s, topK s) = Inr response"
  shows "fallback env s =
           (case runPython env (extractCode (replyContent response)) of
              Inl e \<Rightarrow> Inl e
            | Inr localResult \<Rightarrow> Inr (localResult, extractCode (replyContent response)),
            [ChatCall (selectedCodeModel s) (specialistPayload env s)
               (temperature s, topP s, topK s),
             PythonCall (extractCode (replyContent response))])"
  using assms by (simp add: fallback_def Let_def split: sum.splits)

lemma calls_offline:
  assumes "trim (input s) \<noteq> []" and "truthy (selectedCodeModel s)"
    and "runPythonStream env (streamRequest env s) = (events, Inr a)" and "\<not> backend a"
    and "chatWithOllama env (selectedCodeModel s) (specialistPayload env s)
           (temperature s, topP s, topK s) = Inr response"
  shows "snd (handleSend env s) =
           [StreamCall (streamRequest env s),
            ChatCall (selectedCodeModel s) (specialistPayload env s)
              (temperature s, topP s, topK s),
            PythonCall (extractCode (replyContent response))]
           @ (case runPython env (extractCode (replyContent response)) of
                Inl e \<Rightarrow> []
              | Inr localResult \<Rightarrow>
                  snd (finalSummary env s (input s) False (result localResult)))"
proof (cases "runPython env (extractCode (replyContent response))")
  case (Inl e)
  then show ?thesis
    by (simp add: handleSend_offline [OF assms(1-4)] fallback_replied [OF assms(5)])
next
  case (Inr localResult)
  then show ?thesis
    by (simp add: handleSend_offline [OF assms(1-4)] fallback_replied [OF assms(5)]
        snd_conclude finalSummary_notified finalSummary_sending)
qed

lemma state_offline:
  assumes "trim (input s) \<noteq> []" and "truthy (selectedCodeModel s)"
    and "runPythonStream env (streamRequest env s) = (events, Inr a)" and "\<not> backend a"
    and "chatWithOllama env (selectedCodeModel s) (specialistPayload env s)
           (temperature s, topP s, topK s) = Inr response"
    and "runPython env (extractCode (replyContent response)) = Inr localResult"
    and "finalSummary env s (input s) False (result localResult) = (Inr finalContent, cs)"
    and "newMessage env (clock env 0) (clock env (Suc (length events))) finalContent
           (fig localResult) (Some (extractCode (replyContent response))) = Inr m"
  shows "fst (handleSend env s) =
           finish ((notified (sending env s))
             \<lparr> messages := messages s @ [plainMessage User (input s), offlineNotice, m],
               unreadCount := (if \<not> visibleAtEnd env then unreadCount s + 1
                               else unreadCount s) \<rparr>)"
  using assms(6-8)
  by (simp add: handleSend_offline [OF assms(1-4)] fallback_replied [OF assms(5)]
      conclude_def finalSummary_notified finalSummary_sending notified_reads sending_reads)

lemma messages_finish: "messages (finish s) = messages s" "isLoading (finish s) = False"
  by (simp_all add: finish_def)

lemma newMessage_content:
  assumes "newMessage env t0 t1 finalContent fig0 code0 = Inr m"
  shows "content m =
           (if truthy finalContent then (case finalContent of Some c \<Rightarrow> c | None \<Rightarrow> [])
            else if truthy fig0 then ''I've generated a visualization for you.''
            else ''Analysis complete.'')"
  using assms
  by (auto simp: newMessage_def Let_def split: option.splits sum.splits if_splits)

lemma finalSummary_skipped:
  "\<not> truthy res \<Longrightarrow> finalSummary env s q b res = (Inr res, [])"
  "500 \<le> length r \<Longrightarrow> finalSummary env s q b (Some r) = (Inr (Some r), [])"
  by (auto simp: finalSummary_def summarizable_def truthy_def split: option.splits)

section \<open>handleSend: the example runs\<close>

lemma asking_guard:
  "trim (input asking) \<noteq> []" "truthy (selectedCodeModel asking)"
  "selectedCodeModel asking = Some ''qwen2.5-coder''"
  "selectedChatModel asking = Some ''llama3''"
  "messages asking = []"
  "input asking = ''Total for dining in 2025?''"
  "temperature asking = 0" "topP asking = 1 / 10" "topK asking = 10"
  "unreadCount asking = 0"
  by (simp_all add: asking_def initialState_def truthy_def trim_def isWhiteSpace_def)

lemma question_guard:
  "trim ''Total for dining in 2025?'' \<noteq> []" "truthy (Some ''qwen2.5-coder'')"
  by (simp_all add: truthy_def trim_def isWhiteSpace_def)

lemma offlineEnv_answers:
  "runPythonStream (offlineEnv reply r) opts = ([], Inr offlineAnalysis)"
  "\<not> backend offlineAnalysis"
  "chatWithOllama (offlineEnv reply r) (Some ''qwen2.5-coder'') payload o1 = Inr (Reply (Some reply))"
  "chatWithOllama (offlineEnv reply r) (Some ''llama3'') payload o1
     = Inr (Reply (Some ''You spent 1200 yen on dining.''))"
  "runPython (offlineEnv reply r) c = Inr r"
  "JSON_parse (offlineEnv reply r) f = Inr f"
  "visibleAtEnd (offlineEnv reply r)"
  "currency (offlineEnv reply r) = ''JPY''"
  "clock (offlineEnv reply r) n = real n * 250"
  by (simp_all add: offlineEnv_def offlineAnalysis_def)

lemma chat_asking:
  "chatWithOllama (offlineEnv reply r) (selectedCodeModel asking)
     (specialistPayload (offlineEnv reply r) asking)
     (temperature asking, topP asking, topK asking) = Inr (Reply (Some reply))"
  by (simp add: asking_guard(3) offlineEnv_answers)

lemma calls_asking:
  "snd (handleSend (offlineEnv reply r) asking) =
     [StreamCall (streamRequest (offlineEnv reply r) asking),
      ChatCall (Some ''qwen2.5-coder'') (specialistPayload (offlineEnv reply r) asking)
        (0, 1 / 10, 10),
      PythonCall (extractCode reply)]
     @ snd (finalSummary (offlineEnv reply r) asking ''Total for dining in 2025?'' False (result r))"
  using calls_offline [OF asking_guard(1,2) offlineEnv_answers(1,2) chat_asking, of reply r]
  by (simp add: asking_guard offlineEnv_answers replyContent_def)

lemma summary_asking:
  "finalSummary (offlineEnv reply r) asking (input asking) False (Some ''1200'')
     = (Inr (Some ''You spent 1200 yen on dining.''),
        [ChatCall (Some ''llama3'')
           [plainMessage System (summaryPrompt ''JPY''),
            plainMessage User
              (''Question: '' @ ''Total for dining in 2025?'' @ [CHR 0x0A] @ ''Result: '' @ ''1200'')]
           (0, 1 / 10, 10)])"
  by (simp add: finalSummary_def summarizable_def Let_def asking_guard offlineEnv_answers)

lemma newMessage_asking:
  "newMessage (offlineEnv reply r) (clock (offlineEnv reply r) 0)
     (clock (offlineEnv reply r) (Suc (length ([] :: stageEvent list))))
     (Some ''You spent 1200 yen on dining.'') None (Some c) = Inr (answer1200 c)"
  by (simp add: newMessage_def truthy_def Let_def offlineEnv_answers answer1200_def)

section \<open>handleSend: what the fallback runs\<close>

text \<open>
  Claim C3, as stated, on a run whose analysis result carries the invocation
  \<open>calculate_total(year=2025, month=1)\<close> with a falsy \<open>backend\<close>: the
  interpreter runs \<open>print(1)\<close>, the code of the model's new reply, and that
  is the code shown with the answer.
\<close>

theorem fallback_code_is_not_the_invocation:
  "snd (runPythonStream (offlineEnv ''print(1)'' scalarResult)
          (streamRequest (offlineEnv ''print(1)'' scalarResult) asking)) = Inr offlineAnalysis \<and>
   code offlineAnalysis = Some ''calculate_total(year=2025, month=1)'' \<and>
   \<not> backend offlineAnalysis \<and>
   executed (snd (handleSend (offlineEnv ''print(1)'' scalarResult) asking)) = [''print(1)''] \<and>
   map msgCode (messages (fst (handleSend (offlineEnv ''print(1)'' scalarResult) asking))) =
     [None, None, Some ''print(1)'']"
proof -
  have e: "extractCode (replyContent (Reply (Some ''print(1)''))) = ''print(1)''"
    and e': "extractCode ''print(1)'' = ''print(1)''"
    by code_simp+
  have r: "runPython (offlineEnv ''print(1)'' scalarResult)
             (extractCode (replyContent (Reply (Some ''print(1)'')))) = Inr scalarResult"
    by (simp add: offlineEnv_answers)
  have f: "finalSummary (offlineEnv ''print(1)'' scalarResult) asking (input asking)
             False (result scalarResult)
           = (Inr (Some ''You spent 1200 yen on dining.''),
              [ChatCall (Some ''llama3'')
                 [plainMessage System (summaryPrompt ''JPY''),
                  plainMessage User
                    (''Question: '' @ ''Total for dining in 2025?'' @ [CHR 0x0A]
                      @ ''Result: '' @ ''1200'')]
                 (0, 1 / 10, 10)])"
    using summary_asking [of "''print(1)''" scalarResult]
    by (simp add: scalarResult_def)
  have n: "newMessage (offlineEnv ''print(1)'' scalarResult)
             (clock (offlineEnv ''print(1)'' scalarResult) 0)
             (clock (offlineEnv ''print(1)'' scalarResult)
                (Suc (length ([] :: stageEvent list))))
             (Some ''You spent 1200 yen on dining.'') (fig scalarResult)
             (Some (extractCode (replyContent (Reply (Some ''print(1)'')))))
           = Inr (answer1200 ''print(1)'')"
    using newMessage_asking [of "''print(1)''" scalarResult "''print(1)''"]
    by (simp add: scalarResult_def e)
  have x: "executed (snd (handleSend (offlineEnv ''print(1)'' scalarResult) asking)) = [''print(1)'']"
    by (simp add: calls_asking e' executed_append executed_finalSummary)
  have y: "messages (fst (handleSend (offlineEnv ''print(1)'' scalarResult) asking)) =
             [plainMessage User ''Total for dining in 2025?'', offlineNotice,
              answer1200 ''print(1)'']"
    by (simp add: state_offline [OF asking_guard(1,2) offlineEnv_answers(1,2) chat_asking r f n]
        messages_finish asking_guard)
  show ?thesis
    using x
    by (simp add: y offlineEnv_answers plainMessage_def offlineNotice_def answer1200_def
        offlineAnalysis_def)
qed

text \<open>
  Claim C3, amended. On fallback the code that the in-browser interpreter
  runs is the code extracted from the specialist model's reply to a new
  request, whatever invocation the analysis result carries; when the run
  completes, that code is the one shown with the answer.
\<close>

theorem fallback_executes_code_of_reply:
  assumes "trim (input s) \<noteq> []" and "truthy (selectedCodeModel s)"
    and "runPythonStream env (streamRequest env s) = (events, Inr a)" and "\<not> backend a"
    and "chatWithOllama env (selectedCodeModel s) (specialistPayload env s)
           (temperature s, topP s, topK s) = Inr response"
  shows "executed (snd (handleSend env s)) = [extractCode (replyContent response)] \<and>
         (\<forall>localResult finalContent cs m.
            runPython env (extractCode (replyContent response)) = Inr localResult \<and>
            finalSummary env s (input s) False (result localResult) = (Inr finalContent, cs) \<and>
            newMessage env (clock env 0) (clock env (Suc (length events))) finalContent
              (fig localResult) (Some (extractCode (replyContent response))) = Inr m
            \<longrightarrow> map msgCode (messages (fst (handleSend env s))) =
                  map msgCode (messages s)
                  @ [None, None, Some (extractCode (replyContent response))])"
proof -
  have x: "executed (snd (handleSend env s)) = [extractCode (replyContent response)]"
    by (cases "runPython env (extractCode (replyContent response))")
       (simp_all add: calls_offline [OF assms] executed_append executed_finalSummary)
  have y: "map msgCode (messages (fst (handleSend env s))) =
             map msgCode (messages s) @ [None, None, Some (extractCode (replyContent response))]"
    if "runPython env (extractCode (replyContent response)) = Inr localResult"
      "finalSummary env s (input s) False (result localResult) = (Inr finalContent, cs)"
      "newMessage env (clock env 0) (clock env (Suc (length events))) finalContent
         (fig localResult) (Some (extractCode (replyContent response))) = Inr m"
    for localResult finalContent cs m
  proof -
    have "msgCode m = Some (extractCode (replyContent response))"
      using that(3)
      by (auto simp: newMessage_def Let_def split: option.splits sum.splits if_splits)
    then show ?thesis
      by (simp add: state_offline [OF assms that] messages_finish plainMessage_def
          offlineNotice_def)
  qed
  from x y show ?thesis by blast
qed

theorem fallback_executes_code_of_reply_witness:
  "trim (input asking) \<noteq> [] \<and> truthy (selectedCodeModel asking) \<and>
   \<not> backend offlineAnalysis \<and>
   executed (snd (handleSend (offlineEnv ''`total()`'' noResult) asking)) = [''total()'']"
proof -
  have e: "extractCode (replyContent (Reply (Some ''`total()`''))) = ''total()''"
    by code_simp
  show ?thesis
    using fallback_executes_code_of_reply
      [OF asking_guard(1,2) offlineEnv_answers(1,2) chat_asking, of "''`total()`''" noResult]
    by (simp add: asking_guard question_guard offlineEnv_answers(2) e)
qed

section \<open>handleSend: the summary and the final text\<close>

text \<open>
  Claim C6, as stated, on a run whose result is a chart together with a text
  of 500 code units, which is not a compact value: no summary is asked for
  (the three calls are the remote request, the request for code and the
  interpreter run), and the final text is that text, not an acknowledgement.
\<close>

theorem long_result_is_shown_as_it_is:
  "fig longTable = Some ''{}'' \<and>
   result longTable = Some (replicate 500 (CHR ''x'')) \<and>
   \<not> summarizable False (replicate 500 (CHR ''x'')) \<and>
   length (snd (handleSend (offlineEnv ''plot()'' longTable) asking)) = 3 \<and>
   map content (messages (fst (handleSend (offlineEnv ''plot()'' longTable) asking))) =
     [''Total for dining in 2025?'', ''Backend offline. Running in-browser (slower)...'',
      replicate 500 (CHR ''x'')] \<and>
   replicate 500 (CHR ''x'') \<noteq> ''I've generated a visualization for you.''"
proof -
  let ?E = "offlineEnv ''plot()'' longTable"
  let ?r = "replicate 500 (CHR ''x'')"
  have l: "length ?r = 500" by simp
  have ne: "?r \<noteq> ''I've generated a visualization for you.''"
  proof
    assume "?r = ''I've generated a visualization for you.''"
    then have "length ?r = length ''I've generated a visualization for you.''" by (rule arg_cong)
    then show False by simp
  qed
  have nonempty: "?r \<noteq> []"
  proof
    assume "?r = []"
    then have "length ?r = length ([] :: string)" by (rule arg_cong)
    then show False by simp
  qed
  have ns: "\<not> summarizable False ?r"
    using l by (simp add: summarizable_def)
  have r: "runPython ?E (extractCode (replyContent (Reply (Some ''plot()'')))) = Inr longTable"
    by (simp add: offlineEnv_answers)
  have f: "finalSummary ?E asking (input asking) False (result longTable) = (Inr (Some ?r), [])"
    using finalSummary_skipped(2) [of ?r ?E asking "input asking" False] l
    by (simp add: longTable_def)
  have t: "truthy (Some ?r)"
    using nonempty by (simp add: truthy_def)
  obtain m where n: "newMessage ?E (clock ?E 0) (clock ?E (Suc (length ([] :: stageEvent list))))
        (Some ?r) (fig longTable) (Some (extractCode (replyContent (Reply (Some ''plot()''))))) = Inr m"
    by (simp add: newMessage_def Let_def offlineEnv_answers longTable_def)
  have c: "content m = ?r"
    using newMessage_content [OF n] t by simp
  have s: "messages (fst (handleSend ?E asking)) =
             [plainMessage User ''Total for dining in 2025?'', offlineNotice, m]"
    by (simp add: state_offline [OF asking_guard(1,2) offlineEnv_answers(1,2) chat_asking r f n]
        messages_finish asking_guard)
  have k: "length (snd (handleSend ?E asking)) = 3"
    using f by (simp add: calls_asking asking_guard)
  have g: "fig longTable = Some ''{}''" "result longTable = Some ?r"
    by (simp_all add: longTable_def)
  have d: "map content (messages (fst (handleSend ?E asking))) =
             [''Total for dining in 2025?'', ''Backend offline. Running in-browser (slower)...'', ?r]"
    using c by (simp add: s plainMessage_def offlineNotice_def)
  from g ns k d ne show ?thesis by blast
qed

text \<open>
  The result \<open>None\<close> is the third case in which no summary is asked for. The
  final text is then that word, with the figure.
\<close>

lemma none_result_is_shown:
  assumes "newMessage env (clock env 0) (clock env (Suc n)) (Some ''None'') fig0 code0 = Inr m"
  shows "snd (conclude env s q n b (Some ''None'') fig0 code0 calls) = calls"
    and "content m = ''None''"
proof -
  show "snd (conclude env s q n b (Some ''None'') fig0 code0 calls) = calls"
    by (simp add: snd_conclude finalSummary_def summarizable_def)
  show "content m = ''None''"
    using newMessage_content [OF assms] by (simp add: truthy_def)
qed

text \<open>
  Claim C6, amended. From step 3 of \<open>handleSend\<close> on: for a result that is
  absent or empty no summary is asked for, and the final text is the canned
  acknowledgement, the one for a visualization when there is a figure; for a
  result of 500 code units or more no summary is asked for either, and the
  final text is the result itself.
\<close>

theorem no_summary_call_without_compact_value:
  "(\<not> truthy res \<and>
    newMessage env (clock env 0) (clock env (Suc n)) res fig0 code0 = Inr m \<longrightarrow>
      conclude env s q n b res fig0 code0 calls =
        (finish (s\<lparr> messages := messages s @ [m],
                     unreadCount := (if \<not> visibleAtEnd env then unreadCount s + 1
                                     else unreadCount s) \<rparr>), calls) \<and>
      content m = (if truthy fig0 then ''I've generated a visualization for you.''
                   else ''Analysis complete.'')) \<and>
   (500 \<le> length r \<and>
    newMessage env (clock env 0) (clock env (Suc n)) (Some r) fig0 code0 = Inr m' \<longrightarrow>
      conclude env s q n b (Some r) fig0 code0 calls =
        (finish (s\<lparr> messages := messages s @ [m'],
                     unreadCount := (if \<not> visibleAtEnd env then unreadCount s + 1
                                     else unreadCount s) \<rparr>), calls) \<and>
      content m' = r)"
proof -
  have a: "conclude env s q n b res fig0 code0 calls =
        (finish (s\<lparr> messages := messages s @ [m],
                     unreadCount := (if \<not> visibleAtEnd env then unreadCount s + 1
                                     else unreadCount s) \<rparr>), calls) \<and>
      content m = (if truthy fig0 then ''I've generated a visualization for you.''
                   else ''Analysis complete.'')"
    if "\<not> truthy res" "newMessage env (clock env 0) (clock env (Suc n)) res fig0 code0 = Inr m"
    using that newMessage_content [OF that(2)]
    by (simp add: conclude_def finalSummary_skipped(1))
  have b: "conclude env s q n b (Some r) fig0 code0 calls =
        (finish (s\<lparr> messages := messages s @ [m'],
                     unreadCount := (if \<not> visibleAtEnd env then unreadCount s + 1
                                     else unreadCount s) \<rparr>), calls) \<and>
      content m' = r"
    if "500 \<le> length r"
      "newMessage env (clock env 0) (clock env (Suc n)) (Some r) fig0 code0 = Inr m'"
  proof -
    from that(1) have "r \<noteq> []" by auto
    then have "truthy (Some r)" by (simp add: truthy_def)
    then show ?thesis
      using that newMessage_content [OF that(2)]
      by (simp add: conclude_def finalSummary_skipped(2))
  qed
  from a b show ?thesis by blast
qed

theorem no_summary_call_without_compact_value_witness:
  "\<not> truthy None \<and>
   newMessage (offlineEnv ''plot()'' chartOnly) (clock (offlineEnv ''plot()'' chartOnly) 0)
     (clock (offlineEnv ''plot()'' chartOnly) (Suc 0)) None (Some ''{}'') (Some ''plot()'')
     = Inr chartAnswer \<and>
   conclude (offlineEnv ''plot()'' chartOnly) asking ''Total for dining in 2025?'' 0 False
     None (Some ''{}'') (Some ''plot()'') []
     = (finish (asking\<lparr> messages := messages asking @ [chartAnswer],
                        unreadCount := unreadCount asking \<rparr>), []) \<and>
   content chartAnswer = ''I've generated a visualization for you.''"
proof -
  let ?E = "offlineEnv ''plot()'' chartOnly"
  have t: "\<not> truthy None" by (simp add: truthy_def)
  have n: "newMessage ?E (clock ?E 0) (clock ?E (Suc 0)) None (Some ''{}'') (Some ''plot()'')
             = Inr chartAnswer"
    by (simp add: newMessage_def truthy_def Let_def offlineEnv_answers chartAnswer_def)
  show ?thesis
    using no_summary_call_without_compact_value
      [where env = ?E and res = None and n = 0 and ?fig0.0 = "Some ''{}''"
         and ?code0.0 = "Some ''plot()''" and m = chartAnswer and s = asking
         and q = "''Total for dining in 2025?''" and b = False and calls = "[]"
         and r = "replicate 500 (CHR ''x'')" and m' = chartAnswer] t n
    by (simp add: offlineEnv_answers truthy_def)
qed

section \<open>The order of the stage events\<close>

lemma stage_deliver:
  "map stage (deliver clk i es prev) = map stage prev @ map stage es"
  by (induction es arbitrary: i prev) (simp_all add: onStatus_def)

lemma timestamp_deliver:
  "map timestamp (deliver clk i es prev) = map timestamp prev @ map clk [i..<i + length es]"
proof (induction es arbitrary: i prev)
  case Nil
  then show ?case by simp
next
  case (Cons e es)
  have "[i..<i + length (e # es)] = i # [Suc i..<Suc i + length es]"
    by (simp add: upt_rec)
  then show ?case
    by (simp add: Cons.IH onStatus_def)
qed

lemma sorted_clock:
  assumes "\<forall>i j. i \<le> j \<longrightarrow> clk i \<le> (clk j :: real)"
  shows "sorted (map clk [i..<j])"
  using assms by (simp add: sorted_map sorted_wrt_iff_nth_less)

lemma stageIndex_keys:
  "stageIndex ''router'' = 0" "stageIndex ''specialist'' = 1"
  "stageIndex ''executing'' = 2" "stageIndex ''summarizing'' = 3"
  by (simp_all add: stageIndex_def WORKFLOW_STAGES_def)

lemma follows_forward:
  "follows s p \<Longrightarrow>
     sorted_wrt (<) (map stageIndex (emitted p)) \<and>
     (\<forall>k \<in> set (emitted p). rank s \<le> stageIndex k \<and> stageIndex k < 4)"
proof (induction p arbitrary: s)
  case Nil
  then show ?case by simp
next
  case (Cons t p)
  obtain l s' where t: "t = (l, s')" by (cases t)
  from Cons.prems t have step: "(l, s') \<in> set (transitions s)" and rest: "follows s' p"
    by simp_all
  from Cons.IH [OF rest]
  have ih: "sorted_wrt (<) (map stageIndex (emitted p))"
    and lo: "\<forall>k \<in> set (emitted p). rank s' \<le> stageIndex k \<and> stageIndex k < 4"
    by simp_all
  show ?case
  proof (cases l)
    case None
    from step None have "rank s \<le> rank s'"
      by (cases s) auto
    with ih lo show ?thesis
      by (auto simp: t None)
  next
    case (Some k)
    from step Some have k: "stageIndex k = rank s" "rank s < rank s'" "stageIndex k < 4"
      by (cases s; auto simp: stageIndex_keys)+
    with ih lo show ?thesis
      by (auto simp: t Some)
  qed
qed

text \<open>
  Claim C8. Let the events that \<open>runPythonStream\<close> reports in a run be those
  of a run of the orchestrator from \<open>idle\<close>, let the stage list be empty at
  the start, as every run leaves it, and let the clock never go back. Then
  the stage list of the run holds the events in the order of emission; their
  places in \<open>WORKFLOW_STAGES\<close> strictly increase, so no stage comes before an
  earlier one and none comes twice; and their timestamps, the readings of
  the clock at arrival, never decrease.
\<close>

theorem stage_events_follow_the_stage_order:
  assumes "follows Idle p"
    and "map stage events = emitted p"
    and "fst (runPythonStream env (streamRequest env s)) = events"
    and "workflowStatus s = []"
    and "\<forall>i j. i \<le> j \<longrightarrow> clock env i \<le> clock env j"
  shows "map stage (workflowDuring env s) = emitted p \<and>
         sorted_wrt (<) (map stageIndex (map stage (workflowDuring env s))) \<and>
         (\<forall>e \<in> set (workflowDuring env s). 0 \<le> stageIndex (stage e) \<and> stageIndex (stage e) < 4) \<and>
         map timestamp (workflowDuring env s) = map (clock env) [1..<1 + length events] \<and>
         sorted (map timestamp (workflowDuring env s))"
proof -
  have st: "map stage (workflowDuring env s) = emitted p"
    using assms(2-4) by (simp add: workflowDuring_def stage_deliver)
  have ts: "map timestamp (workflowDuring env s) = map (clock env) [1..<1 + length events]"
    using assms(3,4) by (simp add: workflowDuring_def timestamp_deliver)
  from follows_forward [OF assms(1)]
  have f: "sorted_wrt (<) (map stageIndex (emitted p))"
    and b: "\<forall>k \<in> set (emitted p). 0 \<le> stageIndex k \<and> stageIndex k < 4"
    by simp_all
  have b': "\<forall>e \<in> set (workflowDuring env s). 0 \<le> stageIndex (stage e) \<and> stageIndex (stage e) < 4"
  proof
    fix e assume "e \<in> set (workflowDuring env s)"
    then have "stage e \<in> set (map stage (workflowDuring env s))" by simp
    with st b show "0 \<le> stageIndex (stage e) \<and> stageIndex (stage e) < 4" by simp
  qed
  have so: "sorted (map timestamp (workflowDuring env s))"
    unfolding ts by (rule sorted_clock [OF assms(5)])
  from st f b' ts so show ?thesis by simp
qed

lemma chartRun_facts:
  "follows Idle chartRun" "map stage chartEvents = emitted chartRun"
  "fst (runPythonStream onlineEnv opts) = chartEvents"
  "workflowStatus asking = []"
  by (simp_all add: chartRun_def chartEvents_def onlineEnv_def asking_def initialState_def)

theorem stage_events_follow_the_stage_order_witness:
  "follows Idle chartRun \<and> map stage chartEvents = emitted chartRun \<and>
   workflowStatus asking = [] \<and>
   map stage (workflowDuring onlineEnv asking) = [''router'', ''specialist'', ''executing''] \<and>
   map stageIndex (map stage (workflowDuring onlineEnv asking)) = [0, 1, 2] \<and>
   map timestamp (workflowDuring onlineEnv asking) = [250, 500, 750] \<and>
   sorted (map timestamp (workflowDuring onlineEnv asking))"
proof -
  have m: "\<forall>i j. i \<le> j \<longrightarrow> clock onlineEnv i \<le> clock onlineEnv j"
    by (simp add: onlineEnv_def)
  have e: "emitted chartRun = [''router'', ''specialist'', ''executing'']"
    by (simp add: chartRun_def)
  have l: "map (clock onlineEnv) [1..<1 + length chartEvents] = [250, 500, 750]"
    by (simp add: onlineEnv_def chartEvents_def upt_rec)
  note t = stage_events_follow_the_stage_order
      [OF chartRun_facts(1,2) chartRun_facts(3) chartRun_facts(4) m]
  from t e have s1: "map stage (workflowDuring onlineEnv asking)
      = [''router'', ''specialist'', ''executing'']"
    by simp
  from t l have s2: "map timestamp (workflowDuring onlineEnv asking) = [250, 500, 750]"
    by (simp only:)
  from t have s3: "sorted (map timestamp (workflowDuring onlineEnv asking))"
    by blast
  have s4: "map stageIndex (map stage (workflowDuring onlineEnv asking)) = [0, 1, 2]"
    unfolding s1 by (simp add: stageIndex_keys)
  from chartRun_facts(1,2,4) s1 s4 s2 s3 show ?thesis by blast
qed

end
